theory Spec2Isabelle
  imports Complex_Main
begin

section \<open>The user registry service of \<^verbatim>\<open>server.js\<close>\<close>

text \<open>
  The service keeps one array \<^verbatim>\<open>users_list\<close> of user objects and serves four routes:
  \<^verbatim>\<open>POST /users\<close>, \<^verbatim>\<open>GET /users/:id\<close>, \<^verbatim>\<open>PUT /users/:id\<close> and \<^verbatim>\<open>DELETE /users/:id\<close>.
  Every handler is modelled as a function from the array and the request to the response
  and the array after the call.

  A JavaScript string is a \<open>string\<close> whose characters stand for the code units below 256;
  the path parameter and the two body fields are strings. The stored \<^verbatim>\<open>id\<close> is
  \<^verbatim>\<open>users_list.length + 1\<close>, a positive integer far below \<open>2 ^ 53\<close> (an array holds fewer
  than \<open>2 ^ 32\<close> elements), so it is a \<open>nat\<close> and the addition is exact.
\<close>

subsection \<open>JavaScript numbers and the coercion of a string to a number\<close>

text \<open>
  The callback \<^verbatim>\<open>u => u.id == req.params.id\<close> compares a number with a string. The
  language defines this as \<^verbatim>\<open>u.id == ToNumber(req.params.id)\<close>. A finite number is the
  rational it denotes (the two zeros are equal under \<^verbatim>\<open>==\<close> and are not told apart).
\<close>

datatype number = NaN | PosInfinity | NegInfinity | Finite rat

text \<open>White space and line terminators, the class \<^verbatim>\<open>\s\<close> of regular expressions.\<close>

definition is_white_space :: "char \<Rightarrow> bool" where
  "is_white_space c =
     (c \<in> set [CHR 0x09, CHR 0x0A, CHR 0x0B, CHR 0x0C, CHR 0x0D, CHR 0x20, CHR 0xA0])"

definition is_digit :: "char \<Rightarrow> bool" where
  "is_digit c = (48 \<le> (of_char c :: nat) \<and> (of_char c :: nat) \<le> 57)"

text \<open>The value of a digit in a base up to sixteen; \<open>None\<close> when it is not one.\<close>

definition digit_in :: "nat \<Rightarrow> char \<Rightarrow> nat option" where
  "digit_in base c =
     (let n = (of_char c :: nat);
          v = (if 48 \<le> n \<and> n \<le> 57 then Some (n - 48)
               else if 97 \<le> n \<and> n \<le> 102 then Some (n - 87)
               else if 65 \<le> n \<and> n \<le> 70 then Some (n - 55)
               else None)
      in case v of None \<Rightarrow> None | Some d \<Rightarrow> if d < base then Some d else None)"

definition all_digits_in :: "nat \<Rightarrow> string \<Rightarrow> bool" where
  "all_digits_in base ds = (ds \<noteq> [] \<and> list_all (\<lambda>c. digit_in base c \<noteq> None) ds)"

definition digits_value :: "nat \<Rightarrow> string \<Rightarrow> nat" where
  "digits_value base ds =
     foldl (\<lambda>a c. a * base + (case digit_in base c of None \<Rightarrow> 0 | Some d \<Rightarrow> d)) 0 ds"

text \<open>Round to the nearest integer, a tie to the even one.\<close>

definition round_ties_even :: "rat \<Rightarrow> int" where
  "round_ties_even x =
     (let f = \<lfloor>x\<rfloor>; d = x - of_int f
      in if d < 1 / 2 then f
         else if 1 / 2 < d then f + 1
         else if even f then f else f + 1)"

fun bit_length :: "nat \<Rightarrow> nat" where
  "bit_length n = (if n = 0 then 0 else Suc (bit_length (n div 2)))"

text \<open>The exponent \<open>e\<close> with \<open>2 ^ e \<le> x < 2 ^ (e + 1)\<close>, for a positive \<open>x\<close>.\<close>

definition floor_log2 :: "rat \<Rightarrow> int" where
  "floor_log2 x =
     (let (p, q) = quotient_of x;
          d = int (bit_length (nat p)) - int (bit_length (nat q))
      in if 2 powi d \<le> x then d else d - 1)"

text \<open>
  The Number value for a positive rational: the nearest binary64 value, a tie to the even
  significand, and infinity from \<open>2 ^ 1024\<close> on. The spacing of the values around \<open>x\<close> is
  \<open>2 ^ (e - 52)\<close> in the binade \<open>e\<close> of \<open>x\<close>, and \<open>2 ^ - 1074\<close> below \<open>2 ^ - 1022\<close>.
\<close>

definition number_value_pos :: "rat \<Rightarrow> rat option" where
  "number_value_pos x =
     (let e = max (floor_log2 x) (- 1022);
          q = 2 powi (e - 52);
          r = of_int (round_ties_even (x / q)) * q
      in if 2 ^ 1024 \<le> r then None else Some r)"

definition number_value :: "rat \<Rightarrow> number" where
  "number_value x =
     (if x = 0 then Finite 0
      else if 0 < x then (case number_value_pos x of None \<Rightarrow> PosInfinity | Some r \<Rightarrow> Finite r)
      else (case number_value_pos (- x) of None \<Rightarrow> NegInfinity | Some r \<Rightarrow> Finite (- r)))"

text \<open>
  The grammar of numeric strings: \<^verbatim>\<open>SignedInteger\<close> of an exponent part, then
  \<^verbatim>\<open>StrUnsignedDecimalLiteral\<close> without \<^verbatim>\<open>Infinity\<close> (digits, an optional fraction, an
  optional exponent; at least one digit before the exponent), giving the mathematical
  value, and \<^verbatim>\<open>NonDecimalIntegerLiteral\<close> (binary, octal, hexadecimal, never signed).
\<close>

definition SignedInteger :: "string \<Rightarrow> int option" where
  "SignedInteger s =
     (case s of
        [] \<Rightarrow> None
      | c # t \<Rightarrow>
          if c = CHR ''+'' then (if all_digits_in 10 t then Some (int (digits_value 10 t)) else None)
          else if c = CHR ''-'' then
            (if all_digits_in 10 t then Some (- int (digits_value 10 t)) else None)
          else if all_digits_in 10 s then Some (int (digits_value 10 s)) else None)"

definition StrUnsignedDecimalLiteral :: "string \<Rightarrow> rat option" where
  "StrUnsignedDecimalLiteral s =
     (let ip = takeWhile is_digit s;
          r1 = dropWhile is_digit s;
          fp = (case r1 of [] \<Rightarrow> [] | c # t \<Rightarrow> if c = CHR ''.'' then takeWhile is_digit t else []);
          r2 = (case r1 of [] \<Rightarrow> [] | c # t \<Rightarrow> if c = CHR ''.'' then dropWhile is_digit t else r1);
          m = of_nat (digits_value 10 (ip @ fp)) * 10 powi (- int (length fp))
      in if ip = [] \<and> fp = [] then None
         else case r2 of
                [] \<Rightarrow> Some m
              | c # t \<Rightarrow>
                  if c = CHR ''e'' \<or> c = CHR ''E'' then
                    (case SignedInteger t of None \<Rightarrow> None | Some k \<Rightarrow> Some (m * 10 powi k))
                  else None)"

definition NonDecimalIntegerLiteral :: "string \<Rightarrow> nat option" where
  "NonDecimalIntegerLiteral s =
     (case s of
        z # x # ds \<Rightarrow>
          if z \<noteq> CHR ''0'' then None
          else let base = (if x = CHR ''b'' \<or> x = CHR ''B'' then 2
                           else if x = CHR ''o'' \<or> x = CHR ''O'' then 8
                           else if x = CHR ''x'' \<or> x = CHR ''X'' then 16 else 0)
               in if base \<noteq> 0 \<and> all_digits_in base ds then Some (digits_value base ds) else None
      | _ \<Rightarrow> None)"

definition strip_white_space :: "string \<Rightarrow> string" where
  "strip_white_space s = rev (dropWhile is_white_space (rev (dropWhile is_white_space s)))"

definition StrDecimalLiteral :: "string \<Rightarrow> number" where
  "StrDecimalLiteral s =
     (let neg = (s \<noteq> [] \<and> hd s = CHR ''-'');
          u = (if s \<noteq> [] \<and> (hd s = CHR ''+'' \<or> hd s = CHR ''-'') then tl s else s)
      in if u = ''Infinity'' then (if neg then NegInfinity else PosInfinity)
         else case StrUnsignedDecimalLiteral u of
                None \<Rightarrow> NaN
              | Some m \<Rightarrow> number_value (if neg then - m else m))"

text \<open>\<^verbatim>\<open>ToNumber\<close> of a string: the empty or blank string is zero, a string outside the
  grammar is \<^verbatim>\<open>NaN\<close>.\<close>

definition ToNumber :: "string \<Rightarrow> number" where
  "ToNumber str =
     (let s = strip_white_space str
      in if s = [] then Finite 0
         else case NonDecimalIntegerLiteral s of
                Some n \<Rightarrow> number_value (of_nat n)
              | None \<Rightarrow> StrDecimalLiteral s)"

text \<open>\<^verbatim>\<open>x == y\<close> for a number \<open>x\<close> that is a stored id and a string \<open>y\<close>.\<close>

definition loose_eq :: "nat \<Rightarrow> string \<Rightarrow> bool" where
  "loose_eq x y = (ToNumber y = Finite (of_nat x))"

subsection \<open>The data: users, requests, responses\<close>

text \<open>A user object \<^verbatim>\<open>{ id, name, email }\<close>. The field \<^verbatim>\<open>id\<close> is called \<open>user_id\<close>.\<close>

record user =
  user_id :: nat
  name :: string
  email :: string

text \<open>
  What the handlers read of a request: \<^verbatim>\<open>req.params.id\<close>, \<^verbatim>\<open>req.body.name\<close> and
  \<^verbatim>\<open>req.body.email\<close>. The route \<^verbatim>\<open>POST /users\<close> has no path parameter and never reads
  \<open>params_id\<close>; the routes \<^verbatim>\<open>GET\<close> and \<^verbatim>\<open>DELETE\<close> never read the body.
\<close>

record request =
  params_id :: string
  body_name :: string
  body_email :: string

text \<open>
  One entry of \<^verbatim>\<open>errors.array()\<close>: where the field lives (\<^verbatim>\<open>body\<close> or \<^verbatim>\<open>params\<close>), the
  field and the message given to \<^verbatim>\<open>withMessage\<close>.
\<close>

record validation_error =
  err_location :: string
  err_field :: string
  err_msg :: string

text \<open>
  The three shapes of JSON the handlers send: \<^verbatim>\<open>{ errors: [...] }\<close>,
  \<^verbatim>\<open>{ message: ... }\<close> and a user object. \<^verbatim>\<open>res.json\<close> without \<^verbatim>\<open>res.status\<close> sends 200.
\<close>

datatype json_body = Errors "validation_error list" | Message string | UserJson user

record response =
  status :: nat
  json :: json_body

subsection \<open>The validation chains\<close>

text \<open>
  The validators and sanitizers come from the validation library, not from the
  repository. They are modelled after the library: \<^verbatim>\<open>trim()\<close> removes \<^verbatim>\<open>\s\<close> characters at
  both ends and writes the result back into the request, \<^verbatim>\<open>notEmpty()\<close> fails on the empty
  string, \<^verbatim>\<open>isInt()\<close> without options tests \<^verbatim>\<open>/^[-+]?[0-9]+$/\<close>. The syntax that
  \<^verbatim>\<open>isEmail()\<close> accepts is left open: every handler that uses it takes the test as its
  first argument \<open>isEmail\<close>.
\<close>

definition trim :: "string \<Rightarrow> string" where
  "trim s = rev (dropWhile is_white_space (rev (dropWhile is_white_space s)))"

definition notEmpty :: "string \<Rightarrow> bool" where
  "notEmpty s = (s \<noteq> [])"

definition isInt :: "string \<Rightarrow> bool" where
  "isInt s =
     (case s of
        [] \<Rightarrow> False
      | c # t \<Rightarrow>
          if c = CHR ''+'' \<or> c = CHR ''-'' then t \<noteq> [] \<and> list_all is_digit t
          else list_all is_digit s)"

text \<open>
  A chain takes the request and gives the request after its sanitizers and the errors of
  its validators. \<open>body_name_chain msg\<close> is \<^verbatim>\<open>body('name').trim().notEmpty().withMessage(msg)\<close>,
  \<open>body_email_chain\<close> is \<^verbatim>\<open>body('email').isEmail().withMessage('Valid email is required')\<close>
  and \<open>param_id_chain\<close> is \<^verbatim>\<open>param('id').isInt().withMessage('ID should be an integer')\<close>.
\<close>

definition body_name_chain :: "string \<Rightarrow> request \<Rightarrow> request \<times> validation_error list" where
  "body_name_chain msg req =
     (let req' = req\<lparr>body_name := trim (body_name req)\<rparr>
      in (req', if notEmpty (body_name req') then []
                else [\<lparr>err_location = ''body'', err_field = ''name'', err_msg = msg\<rparr>]))"

definition body_email_chain ::
  "(string \<Rightarrow> bool) \<Rightarrow> request \<Rightarrow> request \<times> validation_error list" where
  "body_email_chain isEmail req =
     (req, if isEmail (body_email req) then []
           else [\<lparr>err_location = ''body'', err_field = ''email'',
                  err_msg = ''Valid email is required''\<rparr>])"

definition param_id_chain :: "request \<Rightarrow> request \<times> validation_error list" where
  "param_id_chain req =
     (req, if isInt (params_id req) then []
           else [\<lparr>err_location = ''params'', err_field = ''id'',
                  err_msg = ''ID should be an integer''\<rparr>])"

text \<open>The chains of a route run in the order of its array; \<^verbatim>\<open>validationResult\<close> collects
  their errors in that order.\<close>

fun run_chains ::
  "(request \<Rightarrow> request \<times> validation_error list) list \<Rightarrow> request
     \<Rightarrow> request \<times> validation_error list" where
  "run_chains [] req = (req, [])"
| "run_chains (c # cs) req =
     (let (req1, e1) = c req; (req2, e2) = run_chains cs req1 in (req2, e1 @ e2))"

subsection \<open>The handlers\<close>

text \<open>\<^verbatim>\<open>Array.prototype.findIndex\<close>: the first index whose element satisfies the
  callback, \<open>- 1\<close> when there is none.\<close>

fun findIndex :: "('a \<Rightarrow> bool) \<Rightarrow> 'a list \<Rightarrow> int" where
  "findIndex P [] = - 1"
| "findIndex P (x # xs) =
     (if P x then 0 else (let i = findIndex P xs in if i = - 1 then - 1 else i + 1))"

text \<open>\<^verbatim>\<open>splice(i, 1)\<close> for an index inside the array.\<close>

definition splice1 :: "nat \<Rightarrow> 'a list \<Rightarrow> 'a list" where
  "splice1 i xs = take i xs @ drop (Suc i) xs"

text \<open>
  \<^verbatim>\<open>Array.prototype.find\<close> gives the first element that satisfies the callback, the
  object itself and not a copy: an assignment to its fields changes the element of the
  array. The object is known by its position in the array (every element is an object of
  its own, made by the object literal of one \<^verbatim>\<open>POST\<close>); \<open>None\<close> is \<^verbatim>\<open>undefined\<close>.
\<close>

fun find_ref :: "('a \<Rightarrow> bool) \<Rightarrow> 'a list \<Rightarrow> nat option" where
  "find_ref P [] = None"
| "find_ref P (x # xs) =
     (if P x then Some 0 else (case find_ref P xs of None \<Rightarrow> None | Some i \<Rightarrow> Some (Suc i)))"

definition not_found :: response where
  "not_found = \<lparr>status = 404, json = Message ''User is not found''\<rparr>"

text \<open>\<^verbatim>\<open>app.post('/users', [...], (req, res) => ...)\<close>\<close>

definition post_users ::
  "(string \<Rightarrow> bool) \<Rightarrow> user list \<Rightarrow> request \<Rightarrow> response \<times> user list" where
  "post_users isEmail users_list req0 =
     (let (req, errors) =
            run_chains [body_name_chain ''Name is required'', body_email_chain isEmail] req0
      in if errors \<noteq> [] then (\<lparr>status = 400, json = Errors errors\<rparr>, users_list)
         else let newUser = \<lparr>user_id = length users_list + 1, name = body_name req,
                              email = body_email req\<rparr>
              in (\<lparr>status = 201, json = UserJson newUser\<rparr>, users_list @ [newUser]))"

text \<open>\<^verbatim>\<open>app.get('/users/:id', (req, res) => ...)\<close>\<close>

definition get_users_id :: "user list \<Rightarrow> request \<Rightarrow> response \<times> user list" where
  "get_users_id users_list req =
     (case find_ref (\<lambda>u. loose_eq (user_id u) (params_id req)) users_list of
        None \<Rightarrow> (not_found, users_list)
      | Some i \<Rightarrow> (\<lparr>status = 200, json = UserJson (users_list ! i)\<rparr>, users_list))"

text \<open>\<^verbatim>\<open>app.put('/users/:id', [...], (req, res) => ...)\<close>\<close>

definition put_users_id ::
  "(string \<Rightarrow> bool) \<Rightarrow> user list \<Rightarrow> request \<Rightarrow> response \<times> user list" where
  "put_users_id isEmail users_list req0 =
     (let (req, errors) =
            run_chains [param_id_chain, body_name_chain ''Name is mandatory'',
                        body_email_chain isEmail] req0
      in if errors \<noteq> [] then (\<lparr>status = 400, json = Errors errors\<rparr>, users_list)
         else case find_ref (\<lambda>u. loose_eq (user_id u) (params_id req)) users_list of
                None \<Rightarrow> (not_found, users_list)
              | Some i \<Rightarrow>
                  (let user = (users_list ! i)\<lparr>name := body_name req, email := body_email req\<rparr>
                   in (\<lparr>status = 200, json = UserJson user\<rparr>, users_list[i := user])))"

text \<open>\<^verbatim>\<open>app.delete('/users/:id', (req, res) => ...)\<close>\<close>

definition delete_users_id :: "user list \<Rightarrow> request \<Rightarrow> response \<times> user list" where
  "delete_users_id users_list req =
     (let userIndex = findIndex (\<lambda>u. loose_eq (user_id u) (params_id req)) users_list
      in if userIndex = - 1 then (not_found, users_list)
         else (\<lparr>status = 200, json = Message ''User is deleted''\<rparr>,
               splice1 (nat userIndex) users_list))"

subsection \<open>The application: routing and runs from the empty array\<close>

datatype route = POST_users | GET_users_id | PUT_users_id | DELETE_users_id

definition app ::
  "(string \<Rightarrow> bool) \<Rightarrow> user list \<Rightarrow> route \<times> request \<Rightarrow> response \<times> user list" where
  "app isEmail users_list call =
     (case fst call of
        POST_users \<Rightarrow> post_users isEmail users_list (snd call)
      | GET_users_id \<Rightarrow> get_users_id users_list (snd call)
      | PUT_users_id \<Rightarrow> put_users_id isEmail users_list (snd call)
      | DELETE_users_id \<Rightarrow> delete_users_id users_list (snd call))"

text \<open>\<^verbatim>\<open>let users_list = []\<close>, then the calls one after the other; the responses in the
  order of the calls and the array at the end.\<close>

fun serve ::
  "(string \<Rightarrow> bool) \<Rightarrow> user list \<Rightarrow> (route \<times> request) list \<Rightarrow> response list \<times> user list" where
  "serve isEmail users_list [] = ([], users_list)"
| "serve isEmail users_list (c # cs) =
     (let (r, users_list') = app isEmail users_list c;
          (rs, users_list'') = serve isEmail users_list' cs
      in (r # rs, users_list''))"

definition run :: "(string \<Rightarrow> bool) \<Rightarrow> (route \<times> request) list \<Rightarrow> response list \<times> user list" where
  "run isEmail calls = serve isEmail [] calls"

subsection \<open>An instance of the email test\<close>

text \<open>
  For running the handlers on concrete requests the open test \<open>isEmail\<close> is instantiated
  by one that accepts the three addresses of the examples and nothing else.
\<close>

definition example_isEmail :: "string \<Rightarrow> bool" where
  "example_isEmail s = (s \<in> set [''ann@x.com'', ''bo@x.com'', ''cy@x.com''])"

subsection \<open>The ids of an array that no delete has touched\<close>

text \<open>The user at position \<open>k\<close>, counted from zero, has the id \<open>k + 1\<close>.\<close>

abbreviation ids_are_positions :: "user list \<Rightarrow> bool" where
  "ids_are_positions us \<equiv> map user_id us = map Suc [0..<length us]"

section \<open>Properties\<close>

subsection \<open>The array operations\<close>

lemma find_ref_None_iff: "find_ref P xs = None \<longleftrightarrow> (\<forall>x\<in>set xs. \<not> P x)"
  by (induction xs) (auto split: option.splits)

lemma find_ref_Some:
  "find_ref P xs = Some i \<Longrightarrow> i < length xs \<and> P (xs ! i) \<and> (\<forall>j<i. \<not> P (xs ! j))"
proof (induction xs arbitrary: i)
  case Nil
  then show ?case by simp
next
  case (Cons x xs)
  show ?case
  proof (cases "P x")
    case True
    with Cons.prems show ?thesis by simp
  next
    case False
    with Cons.prems obtain k where k: "find_ref P xs = Some k" "i = Suc k"
      by (auto split: option.splits)
    from Cons.IH [OF k(1)] False k(2) show ?thesis
      by (auto simp: nth_Cons split: nat.splits)
  qed
qed

lemma find_ref_first:
  "i < length xs \<Longrightarrow> P (xs ! i) \<Longrightarrow> (\<forall>j<i. \<not> P (xs ! j)) \<Longrightarrow> find_ref P xs = Some i"
proof (induction xs arbitrary: i)
  case Nil
  then show ?case by simp
next
  case (Cons x xs)
  show ?case
  proof (cases i)
    case 0
    with Cons.prems show ?thesis by simp
  next
    case (Suc k)
    with Cons.prems have "\<not> P x" by auto
    moreover from Suc Cons.prems have "find_ref P xs = Some k"
      by (intro Cons.IH) auto
    ultimately show ?thesis using Suc by simp
  qed
qed

lemma find_ref_append:
  "\<forall>x\<in>set xs. \<not> P x \<Longrightarrow> P u \<Longrightarrow> find_ref P (xs @ u # ys) = Some (length xs)"
  by (induction xs) auto

text \<open>\<^verbatim>\<open>findIndex\<close> and \<^verbatim>\<open>find\<close> stop at the same element.\<close>

lemma findIndex_find_ref:
  "findIndex P xs = (case find_ref P xs of None \<Rightarrow> - 1 | Some i \<Rightarrow> int i)"
  by (induction xs) (auto simp: Let_def split: option.splits)

subsection \<open>The handlers, case by case\<close>

lemma run_chains_post:
  "run_chains [body_name_chain m, body_email_chain isEmail] req =
     (req\<lparr>body_name := trim (body_name req)\<rparr>,
      (if trim (body_name req) = []
       then [\<lparr>err_location = ''body'', err_field = ''name'', err_msg = m\<rparr>] else []) @
      (if isEmail (body_email req) then []
       else [\<lparr>err_location = ''body'', err_field = ''email'',
              err_msg = ''Valid email is required''\<rparr>]))"
  by (simp add: body_name_chain_def body_email_chain_def notEmpty_def Let_def)

lemma run_chains_put:
  "run_chains [param_id_chain, body_name_chain m, body_email_chain isEmail] req =
     (req\<lparr>body_name := trim (body_name req)\<rparr>,
      (if isInt (params_id req) then []
       else [\<lparr>err_location = ''params'', err_field = ''id'',
              err_msg = ''ID should be an integer''\<rparr>]) @
      (if trim (body_name req) = []
       then [\<lparr>err_location = ''body'', err_field = ''name'', err_msg = m\<rparr>] else []) @
      (if isEmail (body_email req) then []
       else [\<lparr>err_location = ''body'', err_field = ''email'',
              err_msg = ''Valid email is required''\<rparr>]))"
  by (simp add: param_id_chain_def body_name_chain_def body_email_chain_def notEmpty_def Let_def)

lemma user_update:
  "(u :: user)\<lparr>name := a, email := b\<rparr> = \<lparr>user_id = user_id u, name = a, email = b\<rparr>"
  by (cases u) simp

lemma post_users_cases:
  "post_users isEmail us req =
     (if trim (body_name req) \<noteq> [] \<and> isEmail (body_email req)
      then (\<lparr>status = 201,
             json = UserJson \<lparr>user_id = length us + 1, name = trim (body_name req),
                              email = body_email req\<rparr>\<rparr>,
            us @ [\<lparr>user_id = length us + 1, name = trim (body_name req),
                   email = body_email req\<rparr>])
      else (\<lparr>status = 400,
             json = Errors (snd (run_chains [body_name_chain ''Name is required'',
                                             body_email_chain isEmail] req))\<rparr>, us))"
  by (simp add: post_users_def run_chains_post Let_def del: run_chains.simps)

lemma put_users_id_cases:
  "put_users_id isEmail us req =
     (if \<not> (isInt (params_id req) \<and> trim (body_name req) \<noteq> [] \<and> isEmail (body_email req))
      then (\<lparr>status = 400,
             json = Errors (snd (run_chains [param_id_chain, body_name_chain ''Name is mandatory'',
                                             body_email_chain isEmail] req))\<rparr>, us)
      else case find_ref (\<lambda>u. loose_eq (user_id u) (params_id req)) us of
             None \<Rightarrow> (not_found, us)
           | Some i \<Rightarrow>
               (\<lparr>status = 200,
                 json = UserJson \<lparr>user_id = user_id (us ! i), name = trim (body_name req),
                                  email = body_email req\<rparr>\<rparr>,
                us[i := \<lparr>user_id = user_id (us ! i), name = trim (body_name req),
                         email = body_email req\<rparr>]))"
  by (simp add: put_users_id_def run_chains_put user_update Let_def del: run_chains.simps
      split: option.splits)

lemma delete_users_id_cases:
  "delete_users_id us req =
     (case find_ref (\<lambda>u. loose_eq (user_id u) (params_id req)) us of
        None \<Rightarrow> (not_found, us)
      | Some i \<Rightarrow>
          (\<lparr>status = 200, json = Message ''User is deleted''\<rparr>, take i us @ drop (Suc i) us))"
  by (simp add: delete_users_id_def findIndex_find_ref splice1_def Let_def split: option.splits)

lemma get_unchanged: "snd (get_users_id us req) = us"
  by (simp add: get_users_id_def split: option.splits)

lemma post_unchanged:
  "status (fst (post_users isEmail us req)) \<noteq> 201 \<Longrightarrow> snd (post_users isEmail us req) = us"
  by (simp add: post_users_cases split: if_splits)

lemma put_unchanged:
  "status (fst (put_users_id isEmail us req)) \<noteq> 200 \<Longrightarrow> snd (put_users_id isEmail us req) = us"
  by (simp add: put_users_id_def run_chains_put not_found_def Let_def del: run_chains.simps
      split: if_splits option.splits)

lemma delete_unchanged:
  "status (fst (delete_users_id us req)) \<noteq> 200 \<Longrightarrow> snd (delete_users_id us req) = us"
  by (simp add: delete_users_id_cases not_found_def split: option.splits)

text \<open>A path value is loosely equal to at most one id.\<close>

lemma loose_eq_unique: "loose_eq m p \<Longrightarrow> loose_eq n p \<Longrightarrow> m = n"
  by (simp add: loose_eq_def)

subsection \<open>The coercion of the paths of the examples\<close>

lemmas parse_defs = ToNumber_def strip_white_space_def is_white_space_def
  NonDecimalIntegerLiteral_def StrDecimalLiteral_def StrUnsignedDecimalLiteral_def
  SignedInteger_def is_digit_def digits_value_def digit_in_def all_digits_in_def

lemmas round_defs = number_value_def number_value_pos_def floor_log2_def round_ties_even_def

lemma number_value_1: "number_value 1 = Finite 1"
  by (simp add: round_defs)

lemma number_value_2: "number_value 2 = Finite 2"
  by (simp add: round_defs)

lemma ToNumber_1: "ToNumber ''1'' = Finite 1"
  by (simp add: parse_defs number_value_1)

lemma ToNumber_2: "ToNumber ''2'' = Finite 2"
  by (simp add: parse_defs number_value_2)

lemma ToNumber_01: "ToNumber ''01'' = Finite 1"
  by (simp add: parse_defs number_value_1)

lemma ToNumber_blank_1: "ToNumber '' 1'' = Finite 1"
  by (simp add: parse_defs number_value_1)

lemma ToNumber_1e0: "ToNumber ''1e0'' = Finite 1"
  by (simp add: parse_defs number_value_1)

lemma ToNumber_abc: "ToNumber ''abc'' = NaN"
  by (simp add: parse_defs)

lemmas example_paths = ToNumber_1 ToNumber_2 ToNumber_01 ToNumber_blank_1 ToNumber_1e0 ToNumber_abc

lemmas handler_defs = run_def app_def post_users_cases put_users_id_cases delete_users_id_cases
  get_users_id_def not_found_def loose_eq_def trim_def is_white_space_def example_isEmail_def
  isInt_def is_digit_def

subsection \<open>Creating a user\<close>

text \<open>
  Claim C2. A \<^verbatim>\<open>POST /users\<close> whose name is not empty after trimming and whose email passes
  the email test is answered with status 201 and the new user, whose id is the length of
  the array before the call plus one, and the array afterwards is the array before with
  that user appended. The name of the new user is the name as the \<^verbatim>\<open>trim()\<close> sanitizer left
  it in the request.
\<close>

theorem post_users_created:
  assumes "trim (body_name req) \<noteq> []" and "isEmail (body_email req)"
  shows "post_users isEmail users_list req =
     (\<lparr>status = 201,
       json = UserJson \<lparr>user_id = length users_list + 1, name = trim (body_name req),
                        email = body_email req\<rparr>\<rparr>,
      users_list @ [\<lparr>user_id = length users_list + 1, name = trim (body_name req),
                     email = body_email req\<rparr>])"
  using assms by (simp add: post_users_cases)

theorem post_users_created_witness:
  "trim '' Ann '' \<noteq> [] \<and> example_isEmail ''ann@x.com'' \<and>
   post_users example_isEmail []
     \<lparr>params_id = [], body_name = '' Ann '', body_email = ''ann@x.com''\<rparr> =
     (\<lparr>status = 201, json = UserJson \<lparr>user_id = 1, name = ''Ann'', email = ''ann@x.com''\<rparr>\<rparr>,
      [\<lparr>user_id = 1, name = ''Ann'', email = ''ann@x.com''\<rparr>])"
  using post_users_created
    [of "\<lparr>params_id = [], body_name = '' Ann '', body_email = ''ann@x.com''\<rparr>"
        example_isEmail "[]"]
  by (simp add: trim_def is_white_space_def example_isEmail_def)

text \<open>
  Claim C6. A \<^verbatim>\<open>POST /users\<close> whose name is empty after trimming or whose email fails the
  email test is answered with status 400 and the array of the validation errors, one for
  each failing field, the name first; the array of users is as before.
\<close>

theorem post_users_rejected:
  assumes "trim (body_name req) = [] \<or> \<not> isEmail (body_email req)"
  shows "\<exists>errors.
     post_users isEmail users_list req = (\<lparr>status = 400, json = Errors errors\<rparr>, users_list) \<and>
     errors =
       (if trim (body_name req) = []
        then [\<lparr>err_location = ''body'', err_field = ''name'', err_msg = ''Name is required''\<rparr>]
        else []) @
       (if isEmail (body_email req) then []
        else [\<lparr>err_location = ''body'', err_field = ''email'',
               err_msg = ''Valid email is required''\<rparr>]) \<and>
     (trim (body_name req) = [] \<longrightarrow> (\<exists>e\<in>set errors. err_field e = ''name'')) \<and>
     (\<not> isEmail (body_email req) \<longrightarrow> (\<exists>e\<in>set errors. err_field e = ''email''))"
  using assms by (auto simp: post_users_cases run_chains_post simp del: run_chains.simps)

theorem post_users_rejected_witness:
  "trim [CHR 0x20, CHR 0x09] = [] \<and> \<not> example_isEmail ''not-an-email'' \<and>
   post_users example_isEmail [\<lparr>user_id = 1, name = ''Ann'', email = ''ann@x.com''\<rparr>]
     \<lparr>params_id = [], body_name = [CHR 0x20, CHR 0x09], body_email = ''not-an-email''\<rparr> =
     (\<lparr>status = 400,
       json = Errors
         [\<lparr>err_location = ''body'', err_field = ''name'', err_msg = ''Name is required''\<rparr>,
          \<lparr>err_location = ''body'', err_field = ''email'',
            err_msg = ''Valid email is required''\<rparr>]\<rparr>,
      [\<lparr>user_id = 1, name = ''Ann'', email = ''ann@x.com''\<rparr>])"
  using post_users_rejected
    [of "\<lparr>params_id = [], body_name = [CHR 0x20, CHR 0x09], body_email = ''not-an-email''\<rparr>"
        example_isEmail "[\<lparr>user_id = 1, name = ''Ann'', email = ''ann@x.com''\<rparr>]"]
  by (simp add: trim_def is_white_space_def example_isEmail_def)

subsection \<open>Reading a user\<close>

text \<open>
  Claim C7. \<^verbatim>\<open>GET /users/:id\<close> scans the array from the front, comparing each stored id
  with the path value by loose equality. When some stored user matches, the answer is
  status 200 with the first such user; otherwise it is status 404 with exactly the message
  \<^verbatim>\<open>User is not found\<close>. The status is 404 if and only if no stored id is loosely equal to
  the path value, and the array is never changed.
\<close>

theorem get_users_id_found_or_404:
  "snd (get_users_id users_list req) = users_list \<and>
   ((\<exists>u\<in>set users_list. loose_eq (user_id u) (params_id req)) \<longrightarrow>
      (\<exists>i<length users_list.
          loose_eq (user_id (users_list ! i)) (params_id req) \<and>
          (\<forall>j<i. \<not> loose_eq (user_id (users_list ! j)) (params_id req)) \<and>
          fst (get_users_id users_list req) = \<lparr>status = 200, json = UserJson (users_list ! i)\<rparr>)) \<and>
   ((\<forall>u\<in>set users_list. \<not> loose_eq (user_id u) (params_id req)) \<longrightarrow>
      fst (get_users_id users_list req) = \<lparr>status = 404, json = Message ''User is not found''\<rparr>) \<and>
   (status (fst (get_users_id users_list req)) = 404 \<longleftrightarrow>
      (\<forall>u\<in>set users_list. \<not> loose_eq (user_id u) (params_id req)))"
proof (cases "find_ref (\<lambda>u. loose_eq (user_id u) (params_id req)) users_list")
  case None
  then have "\<forall>u\<in>set users_list. \<not> loose_eq (user_id u) (params_id req)"
    by (simp add: find_ref_None_iff)
  with None show ?thesis
    by (simp add: get_users_id_def not_found_def)
next
  case (Some i)
  from find_ref_Some [OF Some]
  have i: "i < length users_list" "loose_eq (user_id (users_list ! i)) (params_id req)"
    "\<forall>j<i. \<not> loose_eq (user_id (users_list ! j)) (params_id req)"
    by auto
  from i(1,2) have ex: "\<exists>u\<in>set users_list. loose_eq (user_id u) (params_id req)"
    using nth_mem by blast
  have r: "get_users_id users_list req = (\<lparr>status = 200, json = UserJson (users_list ! i)\<rparr>, users_list)"
    using Some by (simp add: get_users_id_def)
  show ?thesis using i ex by (auto simp: r)
qed

theorem get_users_id_found_or_404_witness:
  "loose_eq 1 ''1'' \<and>
   get_users_id [\<lparr>user_id = 1, name = ''Ann'', email = ''ann@x.com''\<rparr>] \<lparr>params_id = ''1'', body_name = [], body_email = []\<rparr> =
     (\<lparr>status = 200, json = UserJson \<lparr>user_id = 1, name = ''Ann'', email = ''ann@x.com''\<rparr>\<rparr>, [\<lparr>user_id = 1, name = ''Ann'', email = ''ann@x.com''\<rparr>]) \<and>
   \<not> loose_eq 1 ''abc'' \<and>
   get_users_id [\<lparr>user_id = 1, name = ''Ann'', email = ''ann@x.com''\<rparr>] \<lparr>params_id = ''abc'', body_name = [], body_email = []\<rparr> =
     (\<lparr>status = 404, json = Message ''User is not found''\<rparr>, [\<lparr>user_id = 1, name = ''Ann'', email = ''ann@x.com''\<rparr>])"
  using get_users_id_found_or_404
    [of "[\<lparr>user_id = 1, name = ''Ann'', email = ''ann@x.com''\<rparr>]" "\<lparr>params_id = ''1'', body_name = [], body_email = []\<rparr>"]
    get_users_id_found_or_404
    [of "[\<lparr>user_id = 1, name = ''Ann'', email = ''ann@x.com''\<rparr>]" "\<lparr>params_id = ''abc'', body_name = [], body_email = []\<rparr>"]
  by (simp add: handler_defs example_paths)

subsection \<open>Updating a user\<close>

text \<open>
  Claim C4, as amended. A \<^verbatim>\<open>PUT /users/:id\<close> with an integer path id, a name that is not
  empty after trimming and an email that passes the email test, on an array that holds a
  user matching the path id, is answered with status 200 and the updated user: the first
  matching user with its id as before, with the name of the request after trimming and
  with the email of the request. The array keeps its length, every other position keeps
  its user, and a later \<^verbatim>\<open>GET\<close> of that id is answered with the updated user.
\<close>

theorem put_users_id_updated:
  assumes "isInt (params_id req)" and "trim (body_name req) \<noteq> []"
    and "isEmail (body_email req)"
    and "\<exists>u\<in>set users_list. loose_eq (user_id u) (params_id req)"
  shows "\<exists>i<length users_list.
     loose_eq (user_id (users_list ! i)) (params_id req) \<and>
     (\<forall>j<i. \<not> loose_eq (user_id (users_list ! j)) (params_id req)) \<and>
     (let user = \<lparr>user_id = user_id (users_list ! i), name = trim (body_name req),
                  email = body_email req\<rparr>;
          users_list' = snd (put_users_id isEmail users_list req)
      in fst (put_users_id isEmail users_list req) = \<lparr>status = 200, json = UserJson user\<rparr> \<and>
         length users_list' = length users_list \<and>
         users_list' ! i = user \<and>
         (\<forall>j<length users_list. j \<noteq> i \<longrightarrow> users_list' ! j = users_list ! j) \<and>
         (\<forall>req'. loose_eq (user_id (users_list ! i)) (params_id req') \<longrightarrow>
            get_users_id users_list' req' = (\<lparr>status = 200, json = UserJson user\<rparr>, users_list')))"
proof -
  let ?P = "\<lambda>u. loose_eq (user_id u) (params_id req)"
  from assms(4) obtain i where fi: "find_ref ?P users_list = Some i"
    using find_ref_None_iff [of ?P users_list] by (cases "find_ref ?P users_list") auto
  from find_ref_Some [OF fi]
  have i: "i < length users_list" "loose_eq (user_id (users_list ! i)) (params_id req)"
    "\<forall>j<i. \<not> loose_eq (user_id (users_list ! j)) (params_id req)"
    by auto
  let ?user = "\<lparr>user_id = user_id (users_list ! i), name = trim (body_name req),
                 email = body_email req\<rparr>"
  let ?post = "users_list[i := ?user]"
  have put: "put_users_id isEmail users_list req = (\<lparr>status = 200, json = UserJson ?user\<rparr>, ?post)"
    using assms(1-3) fi by (simp add: put_users_id_cases del: run_chains.simps)
  have read: "get_users_id ?post req' = (\<lparr>status = 200, json = UserJson ?user\<rparr>, ?post)"
    if m: "loose_eq (user_id (users_list ! i)) (params_id req')" for req'
  proof -
    let ?Q = "\<lambda>u. loose_eq (user_id u) (params_id req')"
    have "\<not> ?Q (?post ! j)" if "j < i" for j
    proof
      assume q: "?Q (?post ! j)"
      from that i(1) have "?post ! j = users_list ! j" by simp
      with q have "loose_eq (user_id (users_list ! j)) (params_id req')" by simp
      with m have "user_id (users_list ! j) = user_id (users_list ! i)"
        using loose_eq_unique by blast
      with i(2) have "loose_eq (user_id (users_list ! j)) (params_id req)" by simp
      with i(3) that show False by blast
    qed
    moreover have "?Q (?post ! i)" using i(1) m by simp
    moreover have "i < length ?post" using i(1) by simp
    ultimately have "find_ref ?Q ?post = Some i"
      by (intro find_ref_first) auto
    then show ?thesis using i(1) by (simp add: get_users_id_def)
  qed
  have "loose_eq (user_id (users_list ! i)) (params_id req) \<and>
     (\<forall>j<i. \<not> loose_eq (user_id (users_list ! j)) (params_id req)) \<and>
     (let user = ?user; users_list' = snd (put_users_id isEmail users_list req)
      in fst (put_users_id isEmail users_list req) = \<lparr>status = 200, json = UserJson user\<rparr> \<and>
         length users_list' = length users_list \<and>
         users_list' ! i = user \<and>
         (\<forall>j<length users_list. j \<noteq> i \<longrightarrow> users_list' ! j = users_list ! j) \<and>
         (\<forall>req'. loose_eq (user_id (users_list ! i)) (params_id req') \<longrightarrow>
            get_users_id users_list' req' = (\<lparr>status = 200, json = UserJson user\<rparr>, users_list')))"
    unfolding Let_def put fst_conv snd_conv using i read by simp
  with i(1) show ?thesis by blast
qed

text \<open>The name in the answer is not the name of the request when that has blanks around
  it: the sanitizer has trimmed it.\<close>

theorem put_users_id_name_counterexample:
  "isInt ''1'' \<and> trim '' Bo '' \<noteq> [] \<and> example_isEmail ''bo@x.com'' \<and>
   loose_eq 1 ''1'' \<and>
   fst (put_users_id example_isEmail [\<lparr>user_id = 1, name = ''Ann'', email = ''ann@x.com''\<rparr>]
          \<lparr>params_id = ''1'', body_name = '' Bo '', body_email = ''bo@x.com''\<rparr>) =
     \<lparr>status = 200, json = UserJson \<lparr>user_id = 1, name = ''Bo'', email = ''bo@x.com''\<rparr>\<rparr> \<and>
   fst (put_users_id example_isEmail [\<lparr>user_id = 1, name = ''Ann'', email = ''ann@x.com''\<rparr>]
          \<lparr>params_id = ''1'', body_name = '' Bo '', body_email = ''bo@x.com''\<rparr>) \<noteq>
     \<lparr>status = 200, json = UserJson \<lparr>user_id = 1, name = '' Bo '', email = ''bo@x.com''\<rparr>\<rparr>"
  by (simp add: handler_defs example_paths)

theorem put_users_id_updated_witness:
  "isInt ''2'' \<and> trim '' Bo '' \<noteq> [] \<and> example_isEmail ''bo@x.com'' \<and>
   put_users_id example_isEmail
       [\<lparr>user_id = 1, name = ''Ann'', email = ''ann@x.com''\<rparr>,
        \<lparr>user_id = 2, name = ''Cy'', email = ''cy@x.com''\<rparr>]
       \<lparr>params_id = ''2'', body_name = '' Bo '', body_email = ''bo@x.com''\<rparr> =
     (\<lparr>status = 200, json = UserJson \<lparr>user_id = 2, name = ''Bo'', email = ''bo@x.com''\<rparr>\<rparr>,
      [\<lparr>user_id = 1, name = ''Ann'', email = ''ann@x.com''\<rparr>,
       \<lparr>user_id = 2, name = ''Bo'', email = ''bo@x.com''\<rparr>]) \<and>
   get_users_id
       [\<lparr>user_id = 1, name = ''Ann'', email = ''ann@x.com''\<rparr>,
        \<lparr>user_id = 2, name = ''Bo'', email = ''bo@x.com''\<rparr>]
       \<lparr>params_id = ''2'', body_name = [], body_email = []\<rparr> =
     (\<lparr>status = 200, json = UserJson \<lparr>user_id = 2, name = ''Bo'', email = ''bo@x.com''\<rparr>\<rparr>,
      [\<lparr>user_id = 1, name = ''Ann'', email = ''ann@x.com''\<rparr>,
       \<lparr>user_id = 2, name = ''Bo'', email = ''bo@x.com''\<rparr>])"
  using put_users_id_updated
    [of "\<lparr>params_id = ''2'', body_name = '' Bo '', body_email = ''bo@x.com''\<rparr>" example_isEmail
        "[\<lparr>user_id = 1, name = ''Ann'', email = ''ann@x.com''\<rparr>,
          \<lparr>user_id = 2, name = ''Cy'', email = ''cy@x.com''\<rparr>]"]
  by (simp add: handler_defs example_paths)

subsection \<open>Ids after a delete\<close>

text \<open>
  As long as no \<^verbatim>\<open>DELETE\<close> is served, every id is the position of its user plus one,
  and the ids are pairwise distinct.
\<close>

lemma ids_are_positions_app:
  assumes "ids_are_positions us" and "fst call \<noteq> DELETE_users_id"
  shows "ids_are_positions (snd (app isEmail us call))"
proof (cases "fst call")
  case POST_users
  with assms(1) show ?thesis
    by (simp add: app_def post_users_cases del: run_chains.simps)
next
  case GET_users_id
  with assms(1) show ?thesis by (simp add: app_def get_unchanged)
next
  case PUT_users_id
  have "map user_id (snd (put_users_id isEmail us (snd call))) = map user_id us"
    by (simp add: put_users_id_cases not_found_def map_update del: run_chains.simps
        split: option.splits) (metis find_ref_Some list_update_id map_update nth_map)
  with PUT_users_id assms(1) show ?thesis
    by (simp add: app_def put_users_id_cases not_found_def
        del: run_chains.simps split: option.splits)
next
  case DELETE_users_id
  with assms(2) show ?thesis by simp
qed

lemma ids_are_positions_serve:
  "ids_are_positions us \<Longrightarrow> \<forall>c\<in>set calls. fst c \<noteq> DELETE_users_id \<Longrightarrow>
     ids_are_positions (snd (serve isEmail us calls))"
proof (induction calls arbitrary: us)
  case Nil
  then show ?case by simp
next
  case (Cons c cs)
  from Cons.prems have "ids_are_positions (snd (app isEmail us c))"
    by (intro ids_are_positions_app) auto
  with Cons show ?case
    by (simp add: split_beta Let_def)
qed

lemma distinct_ids_without_delete:
  "\<forall>c\<in>set calls. fst c \<noteq> DELETE_users_id \<Longrightarrow>
     distinct (map user_id (snd (run isEmail calls)))"
proof -
  assume "\<forall>c\<in>set calls. fst c \<noteq> DELETE_users_id"
  then have "ids_are_positions (snd (run isEmail calls))"
    unfolding run_def by (intro ids_are_positions_serve) simp_all
  then show ?thesis by (simp add: distinct_map)
qed

text \<open>
  On an array with pairwise distinct ids, a delete of a stored id removes its user, and a
  second delete of the same id is answered with status 404.
\<close>

lemma splice1_remove1:
  "distinct (map f xs) \<Longrightarrow> i < length xs \<Longrightarrow> take i xs @ drop (Suc i) xs = remove1 (xs ! i) xs"
proof (induction xs arbitrary: i)
  case Nil
  then show ?case by simp
next
  case (Cons x xs)
  show ?case
  proof (cases i)
    case 0
    then show ?thesis by simp
  next
    case (Suc k)
    with Cons.prems have "xs ! k \<in> set xs" "f x \<notin> f ` set xs" by auto
    then have "xs ! k \<noteq> x" by auto
    with Suc Cons show ?thesis by simp
  qed
qed

lemma delete_twice_distinct_ids:
  assumes "distinct (map user_id users_list)" and "u \<in> set users_list"
    and "loose_eq (user_id u) (params_id req)"
  shows "delete_users_id users_list req =
       (\<lparr>status = 200, json = Message ''User is deleted''\<rparr>, remove1 u users_list) \<and>
     delete_users_id (remove1 u users_list) req =
       (\<lparr>status = 404, json = Message ''User is not found''\<rparr>, remove1 u users_list)"
proof -
  let ?P = "\<lambda>u. loose_eq (user_id u) (params_id req)"
  from assms(2,3) obtain i where fi: "find_ref ?P users_list = Some i"
    using find_ref_None_iff [of ?P users_list] by (cases "find_ref ?P users_list") auto
  from find_ref_Some [OF fi] have i: "i < length users_list" "?P (users_list ! i)"
    by auto
  from i(2) assms(3) have "user_id (users_list ! i) = user_id u"
    using loose_eq_unique by blast
  with assms(1,2) i(1) have ui: "users_list ! i = u"
    by (metis distinct_map inj_on_def nth_mem)
  have first: "delete_users_id users_list req =
       (\<lparr>status = 200, json = Message ''User is deleted''\<rparr>, remove1 u users_list)"
    using fi splice1_remove1 [OF assms(1) i(1)] ui by (simp add: delete_users_id_cases)
  have "\<not> ?P v" if v: "v \<in> set (remove1 u users_list)" for v
  proof
    assume "?P v"
    with assms(3) have "user_id v = user_id u" using loose_eq_unique by blast
    moreover from assms(1) have "distinct users_list" "inj_on user_id (set users_list)"
      by (simp_all add: distinct_map)
    moreover from v \<open>distinct users_list\<close> have "v \<in> set users_list" "v \<noteq> u" by auto
    ultimately show False using assms(2) by (auto simp: inj_on_def)
  qed
  then have "find_ref ?P (remove1 u users_list) = None"
    by (simp add: find_ref_None_iff)
  then have second: "delete_users_id (remove1 u users_list) req =
       (\<lparr>status = 404, json = Message ''User is not found''\<rparr>, remove1 u users_list)"
    by (simp add: delete_users_id_cases not_found_def)
  from first second show ?thesis by blast
qed

text \<open>
  Claim C1. The ids of the stored users should be pairwise distinct in every array the
  service can reach. They are not: after two creates, a delete of id 1 and one more
  create, the array has length 1 at the last create, which assigns the id 2 again.
\<close>

theorem id_reused_after_delete:
  "map user_id (snd (run example_isEmail
     [(POST_users, \<lparr>params_id = [], body_name = ''Ann'', body_email = ''ann@x.com''\<rparr>),
      (POST_users, \<lparr>params_id = [], body_name = ''Bo'', body_email = ''bo@x.com''\<rparr>),
      (DELETE_users_id, \<lparr>params_id = ''1'', body_name = [], body_email = []\<rparr>),
      (POST_users, \<lparr>params_id = [], body_name = ''Cy'', body_email = ''cy@x.com''\<rparr>)])) = [2, 2]"
  by (simp add: handler_defs example_paths)

text \<open>
  Claim C5. After a successful delete of an id, a second delete of the same id should be
  answered with status 404. On the array reached above, which holds the id 2 twice, both
  deletes of id 2 are answered with status 200.
\<close>

theorem second_delete_of_reused_id:
  "run example_isEmail
     [(POST_users, \<lparr>params_id = [], body_name = ''Ann'', body_email = ''ann@x.com''\<rparr>),
      (POST_users, \<lparr>params_id = [], body_name = ''Bo'', body_email = ''bo@x.com''\<rparr>),
      (DELETE_users_id, \<lparr>params_id = ''1'', body_name = [], body_email = []\<rparr>),
      (POST_users, \<lparr>params_id = [], body_name = ''Cy'', body_email = ''cy@x.com''\<rparr>),
      (DELETE_users_id, \<lparr>params_id = ''2'', body_name = [], body_email = []\<rparr>),
      (DELETE_users_id, \<lparr>params_id = ''2'', body_name = [], body_email = []\<rparr>)] =
   ([\<lparr>status = 201, json = UserJson \<lparr>user_id = 1, name = ''Ann'', email = ''ann@x.com''\<rparr>\<rparr>,
     \<lparr>status = 201, json = UserJson \<lparr>user_id = 2, name = ''Bo'', email = ''bo@x.com''\<rparr>\<rparr>,
     \<lparr>status = 200, json = Message ''User is deleted''\<rparr>,
     \<lparr>status = 201, json = UserJson \<lparr>user_id = 2, name = ''Cy'', email = ''cy@x.com''\<rparr>\<rparr>,
     \<lparr>status = 200, json = Message ''User is deleted''\<rparr>,
     \<lparr>status = 200, json = Message ''User is deleted''\<rparr>], [])"
  by (simp add: handler_defs example_paths)

text \<open>
  Claim C10. When the array holds several users with the same id, \<^verbatim>\<open>GET\<close> and \<^verbatim>\<open>PUT\<close>
  act on the one nearest the front, which is the one appended first, and \<^verbatim>\<open>DELETE\<close>
  removes that one only: the users before it and behind it, the later ones with the same
  id among them, stay as they are.
\<close>

theorem earliest_duplicate_served:
  assumes "users_list = xs @ u # ys"
    and "\<forall>x\<in>set xs. user_id x \<noteq> user_id u"
    and "loose_eq (user_id u) (params_id req)"
  shows "get_users_id users_list req = (\<lparr>status = 200, json = UserJson u\<rparr>, users_list) \<and>
     delete_users_id users_list req =
       (\<lparr>status = 200, json = Message ''User is deleted''\<rparr>, xs @ ys) \<and>
     (isInt (params_id req) \<and> trim (body_name req) \<noteq> [] \<and> isEmail (body_email req) \<longrightarrow>
        put_users_id isEmail users_list req =
          (\<lparr>status = 200,
            json = UserJson \<lparr>user_id = user_id u, name = trim (body_name req),
                             email = body_email req\<rparr>\<rparr>,
           xs @ \<lparr>user_id = user_id u, name = trim (body_name req), email = body_email req\<rparr> # ys))"
proof -
  let ?P = "\<lambda>u. loose_eq (user_id u) (params_id req)"
  have "\<forall>x\<in>set xs. \<not> ?P x"
    using assms(2,3) loose_eq_unique by blast
  then have f: "find_ref ?P users_list = Some (length xs)"
    unfolding assms(1) using assms(3) by (rule find_ref_append)
  have g: "get_users_id users_list req = (\<lparr>status = 200, json = UserJson u\<rparr>, users_list)"
    using f by (simp add: get_users_id_def assms(1))
  have d: "delete_users_id users_list req =
       (\<lparr>status = 200, json = Message ''User is deleted''\<rparr>, xs @ ys)"
    using f by (simp add: delete_users_id_cases assms(1))
  have p: "put_users_id isEmail users_list req =
          (\<lparr>status = 200,
            json = UserJson \<lparr>user_id = user_id u, name = trim (body_name req),
                             email = body_email req\<rparr>\<rparr>,
           xs @ \<lparr>user_id = user_id u, name = trim (body_name req), email = body_email req\<rparr> # ys)"
    if "isInt (params_id req)" "trim (body_name req) \<noteq> []" "isEmail (body_email req)"
    using f that by (simp add: put_users_id_cases assms(1) del: run_chains.simps)
  from g d p show ?thesis by blast
qed

theorem earliest_duplicate_served_witness:
  "get_users_id
     [\<lparr>user_id = 2, name = ''Bo'', email = ''bo@x.com''\<rparr>,
      \<lparr>user_id = 2, name = ''Cy'', email = ''cy@x.com''\<rparr>]
     \<lparr>params_id = ''2'', body_name = ''Ann'', body_email = ''ann@x.com''\<rparr> =
     (\<lparr>status = 200, json = UserJson \<lparr>user_id = 2, name = ''Bo'', email = ''bo@x.com''\<rparr>\<rparr>,
      [\<lparr>user_id = 2, name = ''Bo'', email = ''bo@x.com''\<rparr>,
       \<lparr>user_id = 2, name = ''Cy'', email = ''cy@x.com''\<rparr>]) \<and>
   delete_users_id
     [\<lparr>user_id = 2, name = ''Bo'', email = ''bo@x.com''\<rparr>,
      \<lparr>user_id = 2, name = ''Cy'', email = ''cy@x.com''\<rparr>]
     \<lparr>params_id = ''2'', body_name = ''Ann'', body_email = ''ann@x.com''\<rparr> =
     (\<lparr>status = 200, json = Message ''User is deleted''\<rparr>,
      [\<lparr>user_id = 2, name = ''Cy'', email = ''cy@x.com''\<rparr>]) \<and>
   put_users_id example_isEmail
     [\<lparr>user_id = 2, name = ''Bo'', email = ''bo@x.com''\<rparr>,
      \<lparr>user_id = 2, name = ''Cy'', email = ''cy@x.com''\<rparr>]
     \<lparr>params_id = ''2'', body_name = ''Ann'', body_email = ''ann@x.com''\<rparr> =
     (\<lparr>status = 200, json = UserJson \<lparr>user_id = 2, name = ''Ann'', email = ''ann@x.com''\<rparr>\<rparr>,
      [\<lparr>user_id = 2, name = ''Ann'', email = ''ann@x.com''\<rparr>,
       \<lparr>user_id = 2, name = ''Cy'', email = ''cy@x.com''\<rparr>])"
proof -
  have l: "loose_eq 2 ''2''"
    by (simp add: loose_eq_def ToNumber_2)
  have v: "isInt ''2'' \<and> trim ''Ann'' \<noteq> [] \<and> example_isEmail ''ann@x.com''"
    by (simp add: isInt_def is_digit_def trim_def is_white_space_def example_isEmail_def)
  show ?thesis
    using l v earliest_duplicate_served
      [of "[\<lparr>user_id = 2, name = ''Bo'', email = ''bo@x.com''\<rparr>,
            \<lparr>user_id = 2, name = ''Cy'', email = ''cy@x.com''\<rparr>]"
          "[]" "\<lparr>user_id = 2, name = ''Bo'', email = ''bo@x.com''\<rparr>"
          "[\<lparr>user_id = 2, name = ''Cy'', email = ''cy@x.com''\<rparr>]"
          "\<lparr>params_id = ''2'', body_name = ''Ann'', body_email = ''ann@x.com''\<rparr>"
          example_isEmail]
    by (simp add: trim_def is_white_space_def)
qed

subsection \<open>Path ids that are not integers\<close>

text \<open>
  Claim C8, as amended. When the path id is not an integer, \<^verbatim>\<open>PUT\<close> is answered with
  status 400 and validation errors that name the id, with the array unchanged. \<^verbatim>\<open>GET\<close> and
  \<^verbatim>\<open>DELETE\<close> do not validate the path id and never answer 400. When no stored id is
  loosely equal to the path value they answer 404 with the message \<^verbatim>\<open>User is not found\<close>
  and leave the array as it was, and only then is the status 404. When some stored id is
  loosely equal to it they answer 200: \<^verbatim>\<open>GET\<close> with the first matching user, \<^verbatim>\<open>DELETE\<close> with
  the message \<^verbatim>\<open>User is deleted\<close> after removing that user and no other.
\<close>

theorem non_integer_path_id:
  assumes "\<not> isInt (params_id req)"
  shows "(\<exists>errors.
       put_users_id isEmail users_list req = (\<lparr>status = 400, json = Errors errors\<rparr>, users_list) \<and>
       \<lparr>err_location = ''params'', err_field = ''id'', err_msg = ''ID should be an integer''\<rparr>
         \<in> set errors) \<and>
     status (fst (get_users_id users_list req)) \<noteq> 400 \<and>
     status (fst (delete_users_id users_list req)) \<noteq> 400 \<and>
     (status (fst (get_users_id users_list req)) = 404 \<longleftrightarrow>
        (\<forall>u\<in>set users_list. \<not> loose_eq (user_id u) (params_id req))) \<and>
     (status (fst (delete_users_id users_list req)) = 404 \<longleftrightarrow>
        (\<forall>u\<in>set users_list. \<not> loose_eq (user_id u) (params_id req))) \<and>
     ((\<forall>u\<in>set users_list. \<not> loose_eq (user_id u) (params_id req)) \<longrightarrow>
        get_users_id users_list req =
          (\<lparr>status = 404, json = Message ''User is not found''\<rparr>, users_list) \<and>
        delete_users_id users_list req =
          (\<lparr>status = 404, json = Message ''User is not found''\<rparr>, users_list)) \<and>
     ((\<exists>u\<in>set users_list. loose_eq (user_id u) (params_id req)) \<longrightarrow>
        status (fst (get_users_id users_list req)) = 200 \<and>
        status (fst (delete_users_id users_list req)) = 200 \<and>
        (\<exists>i<length users_list.
           loose_eq (user_id (users_list ! i)) (params_id req) \<and>
           (\<forall>j<i. \<not> loose_eq (user_id (users_list ! j)) (params_id req)) \<and>
           get_users_id users_list req =
             (\<lparr>status = 200, json = UserJson (users_list ! i)\<rparr>, users_list) \<and>
           delete_users_id users_list req =
             (\<lparr>status = 200, json = Message ''User is deleted''\<rparr>,
              take i users_list @ drop (Suc i) users_list)))"
proof -
  let ?P = "\<lambda>u. loose_eq (user_id u) (params_id req)"
  have put: "\<exists>errors.
       put_users_id isEmail users_list req = (\<lparr>status = 400, json = Errors errors\<rparr>, users_list) \<and>
       \<lparr>err_location = ''params'', err_field = ''id'', err_msg = ''ID should be an integer''\<rparr>
         \<in> set errors"
    using assms by (simp add: put_users_id_cases run_chains_put del: run_chains.simps)
  have rest: "status (fst (get_users_id users_list req)) \<noteq> 400 \<and>
     status (fst (delete_users_id users_list req)) \<noteq> 400 \<and>
     (status (fst (get_users_id users_list req)) = 404 \<longleftrightarrow> (\<forall>u\<in>set users_list. \<not> ?P u)) \<and>
     (status (fst (delete_users_id users_list req)) = 404 \<longleftrightarrow> (\<forall>u\<in>set users_list. \<not> ?P u))"
  proof (cases "find_ref ?P users_list")
    case None
    then show ?thesis
      using find_ref_None_iff [of ?P users_list]
      by (simp add: get_users_id_def delete_users_id_cases not_found_def)
  next
    case (Some i)
    then show ?thesis
      using find_ref_None_iff [of ?P users_list]
      by (simp add: get_users_id_def delete_users_id_cases not_found_def)
  qed
  have none: "get_users_id users_list req =
          (\<lparr>status = 404, json = Message ''User is not found''\<rparr>, users_list) \<and>
        delete_users_id users_list req =
          (\<lparr>status = 404, json = Message ''User is not found''\<rparr>, users_list)"
    if "\<forall>u\<in>set users_list. \<not> ?P u"
  proof -
    from that have "find_ref ?P users_list = None"
      by (simp add: find_ref_None_iff)
    then show ?thesis
      by (simp add: get_users_id_def delete_users_id_cases not_found_def)
  qed
  have some: "status (fst (get_users_id users_list req)) = 200 \<and>
        status (fst (delete_users_id users_list req)) = 200 \<and>
        (\<exists>i<length users_list.
           ?P (users_list ! i) \<and> (\<forall>j<i. \<not> ?P (users_list ! j)) \<and>
           get_users_id users_list req =
             (\<lparr>status = 200, json = UserJson (users_list ! i)\<rparr>, users_list) \<and>
           delete_users_id users_list req =
             (\<lparr>status = 200, json = Message ''User is deleted''\<rparr>,
              take i users_list @ drop (Suc i) users_list))"
    if "\<exists>u\<in>set users_list. ?P u"
  proof -
    from that obtain i where fi: "find_ref ?P users_list = Some i"
      using find_ref_None_iff [of ?P users_list] by (cases "find_ref ?P users_list") auto
    from find_ref_Some [OF fi]
    have i: "i < length users_list" "?P (users_list ! i)" "\<forall>j<i. \<not> ?P (users_list ! j)"
      by auto
    have g: "get_users_id users_list req =
        (\<lparr>status = 200, json = UserJson (users_list ! i)\<rparr>, users_list)"
      using fi by (simp add: get_users_id_def)
    have d: "delete_users_id users_list req =
        (\<lparr>status = 200, json = Message ''User is deleted''\<rparr>,
         take i users_list @ drop (Suc i) users_list)"
      using fi by (simp add: delete_users_id_cases)
    have st: "status (fst (get_users_id users_list req)) = 200 \<and>
        status (fst (delete_users_id users_list req)) = 200"
      by (simp add: g d)
    from i g d have "\<exists>i<length users_list.
           ?P (users_list ! i) \<and> (\<forall>j<i. \<not> ?P (users_list ! j)) \<and>
           get_users_id users_list req =
             (\<lparr>status = 200, json = UserJson (users_list ! i)\<rparr>, users_list) \<and>
           delete_users_id users_list req =
             (\<lparr>status = 200, json = Message ''User is deleted''\<rparr>,
              take i users_list @ drop (Suc i) users_list)"
      by blast
    with st show ?thesis by blast
  qed
  from put rest none some show ?thesis by blast
qed

text \<open>The path \<^verbatim>\<open>1e0\<close> is not an integer for \<^verbatim>\<open>isInt\<close>, and yet \<^verbatim>\<open>GET\<close> and \<^verbatim>\<open>DELETE\<close>
  find the user with id 1 under it.\<close>

theorem non_integer_path_id_counterexample:
  "\<not> isInt ''1e0'' \<and>
   status (fst (get_users_id [\<lparr>user_id = 1, name = ''Ann'', email = ''ann@x.com''\<rparr>]
                  \<lparr>params_id = ''1e0'', body_name = [], body_email = []\<rparr>)) = 200 \<and>
   status (fst (delete_users_id [\<lparr>user_id = 1, name = ''Ann'', email = ''ann@x.com''\<rparr>]
                  \<lparr>params_id = ''1e0'', body_name = [], body_email = []\<rparr>)) = 200"
  by (simp add: handler_defs example_paths)

theorem non_integer_path_id_witness:
  "\<not> isInt ''abc'' \<and> \<not> loose_eq 1 ''abc'' \<and>
   status (fst (put_users_id example_isEmail [\<lparr>user_id = 1, name = ''Ann'', email = ''ann@x.com''\<rparr>]
                  \<lparr>params_id = ''abc'', body_name = ''Bo'', body_email = ''bo@x.com''\<rparr>)) = 400 \<and>
   get_users_id [\<lparr>user_id = 1, name = ''Ann'', email = ''ann@x.com''\<rparr>] \<lparr>params_id = ''abc'', body_name = ''Bo'', body_email = ''bo@x.com''\<rparr> =
     (\<lparr>status = 404, json = Message ''User is not found''\<rparr>, [\<lparr>user_id = 1, name = ''Ann'', email = ''ann@x.com''\<rparr>]) \<and>
   delete_users_id [\<lparr>user_id = 1, name = ''Ann'', email = ''ann@x.com''\<rparr>] \<lparr>params_id = ''abc'', body_name = ''Bo'', body_email = ''bo@x.com''\<rparr> =
     (\<lparr>status = 404, json = Message ''User is not found''\<rparr>, [\<lparr>user_id = 1, name = ''Ann'', email = ''ann@x.com''\<rparr>]) \<and>
   \<not> isInt ''1e0'' \<and> loose_eq 1 ''1e0'' \<and>
   status (fst (put_users_id example_isEmail [\<lparr>user_id = 1, name = ''Ann'', email = ''ann@x.com''\<rparr>]
                  \<lparr>params_id = ''1e0'', body_name = ''Bo'', body_email = ''bo@x.com''\<rparr>)) = 400 \<and>
   get_users_id [\<lparr>user_id = 1, name = ''Ann'', email = ''ann@x.com''\<rparr>] \<lparr>params_id = ''1e0'', body_name = ''Bo'', body_email = ''bo@x.com''\<rparr> =
     (\<lparr>status = 200, json = UserJson \<lparr>user_id = 1, name = ''Ann'', email = ''ann@x.com''\<rparr>\<rparr>, [\<lparr>user_id = 1, name = ''Ann'', email = ''ann@x.com''\<rparr>]) \<and>
   delete_users_id [\<lparr>user_id = 1, name = ''Ann'', email = ''ann@x.com''\<rparr>] \<lparr>params_id = ''1e0'', body_name = ''Bo'', body_email = ''bo@x.com''\<rparr> =
     (\<lparr>status = 200, json = Message ''User is deleted''\<rparr>, [])"
  using non_integer_path_id
    [of "\<lparr>params_id = ''abc'', body_name = ''Bo'', body_email = ''bo@x.com''\<rparr>" example_isEmail
        "[\<lparr>user_id = 1, name = ''Ann'', email = ''ann@x.com''\<rparr>]"]
    non_integer_path_id
    [of "\<lparr>params_id = ''1e0'', body_name = ''Bo'', body_email = ''bo@x.com''\<rparr>" example_isEmail
        "[\<lparr>user_id = 1, name = ''Ann'', email = ''ann@x.com''\<rparr>]"]
  by (simp add: handler_defs example_paths)

text \<open>
  Claim C9, as amended. A path string whose coercion to a number is a stored id, such as
  \<^verbatim>\<open>01\<close>, a blank followed by \<^verbatim>\<open>1\<close>, or \<^verbatim>\<open>1e0\<close> for the id 1, matches the first user with
  that id in \<^verbatim>\<open>GET\<close> and in \<^verbatim>\<open>DELETE\<close>. In \<^verbatim>\<open>PUT\<close> with a valid body it does so only if
  it also passes \<^verbatim>\<open>isInt\<close>, as \<^verbatim>\<open>01\<close> does; otherwise the answer is status 400 and the
  array is unchanged.
\<close>

theorem coerced_path_matches:
  assumes "u \<in> set users_list" and "loose_eq (user_id u) (params_id req)"
  shows "loose_eq 1 ''01'' \<and> loose_eq 1 '' 1'' \<and> loose_eq 1 ''1e0'' \<and>
     isInt ''01'' \<and> \<not> isInt '' 1'' \<and> \<not> isInt ''1e0'' \<and>
     (\<exists>i<length users_list.
        user_id (users_list ! i) = user_id u \<and>
        (\<forall>j<i. user_id (users_list ! j) \<noteq> user_id u) \<and>
        get_users_id users_list req =
          (\<lparr>status = 200, json = UserJson (users_list ! i)\<rparr>, users_list) \<and>
        delete_users_id users_list req =
          (\<lparr>status = 200, json = Message ''User is deleted''\<rparr>,
           take i users_list @ drop (Suc i) users_list) \<and>
        (trim (body_name req) \<noteq> [] \<and> isEmail (body_email req) \<longrightarrow>
           (if isInt (params_id req)
            then put_users_id isEmail users_list req =
                   (\<lparr>status = 200,
                     json = UserJson \<lparr>user_id = user_id u, name = trim (body_name req),
                                      email = body_email req\<rparr>\<rparr>,
                    users_list[i := \<lparr>user_id = user_id u, name = trim (body_name req),
                                     email = body_email req\<rparr>])
            else status (fst (put_users_id isEmail users_list req)) = 400 \<and>
                 snd (put_users_id isEmail users_list req) = users_list)))"
proof -
  let ?P = "\<lambda>u. loose_eq (user_id u) (params_id req)"
  have ex: "loose_eq 1 ''01'' \<and> loose_eq 1 '' 1'' \<and> loose_eq 1 ''1e0'' \<and>
     isInt ''01'' \<and> \<not> isInt '' 1'' \<and> \<not> isInt ''1e0''"
    by (simp add: loose_eq_def example_paths isInt_def is_digit_def)
  from assms obtain i where fi: "find_ref ?P users_list = Some i"
    using find_ref_None_iff [of ?P users_list] by (cases "find_ref ?P users_list") auto
  from find_ref_Some [OF fi]
  have i: "i < length users_list" "?P (users_list ! i)" "\<forall>j<i. \<not> ?P (users_list ! j)"
    by auto
  from i(2) assms(2) have same: "user_id (users_list ! i) = user_id u"
    using loose_eq_unique by blast
  have before: "\<forall>j<i. user_id (users_list ! j) \<noteq> user_id u"
    using i(3) assms(2) by metis
  have g: "get_users_id users_list req =
      (\<lparr>status = 200, json = UserJson (users_list ! i)\<rparr>, users_list)"
    using fi by (simp add: get_users_id_def)
  have d: "delete_users_id users_list req =
      (\<lparr>status = 200, json = Message ''User is deleted''\<rparr>,
       take i users_list @ drop (Suc i) users_list)"
    using fi by (simp add: delete_users_id_cases)
  have p: "trim (body_name req) \<noteq> [] \<and> isEmail (body_email req) \<longrightarrow>
           (if isInt (params_id req)
            then put_users_id isEmail users_list req =
                   (\<lparr>status = 200,
                     json = UserJson \<lparr>user_id = user_id u, name = trim (body_name req),
                                      email = body_email req\<rparr>\<rparr>,
                    users_list[i := \<lparr>user_id = user_id u, name = trim (body_name req),
                                     email = body_email req\<rparr>])
            else status (fst (put_users_id isEmail users_list req)) = 400 \<and>
                 snd (put_users_id isEmail users_list req) = users_list)"
    using fi same by (simp add: put_users_id_cases del: run_chains.simps)
  from i(1) same before g d p have "\<exists>i<length users_list.
        user_id (users_list ! i) = user_id u \<and>
        (\<forall>j<i. user_id (users_list ! j) \<noteq> user_id u) \<and>
        get_users_id users_list req =
          (\<lparr>status = 200, json = UserJson (users_list ! i)\<rparr>, users_list) \<and>
        delete_users_id users_list req =
          (\<lparr>status = 200, json = Message ''User is deleted''\<rparr>,
           take i users_list @ drop (Suc i) users_list) \<and>
        (trim (body_name req) \<noteq> [] \<and> isEmail (body_email req) \<longrightarrow>
           (if isInt (params_id req)
            then put_users_id isEmail users_list req =
                   (\<lparr>status = 200,
                     json = UserJson \<lparr>user_id = user_id u, name = trim (body_name req),
                                      email = body_email req\<rparr>\<rparr>,
                    users_list[i := \<lparr>user_id = user_id u, name = trim (body_name req),
                                     email = body_email req\<rparr>])
            else status (fst (put_users_id isEmail users_list req)) = 400 \<and>
                 snd (put_users_id isEmail users_list req) = users_list))"
    by blast
  with ex show ?thesis by blast
qed

text \<open>\<^verbatim>\<open>PUT\<close> under the path \<^verbatim>\<open>1e0\<close> does not reach the user with id 1.\<close>

theorem coerced_path_matches_counterexample:
  "loose_eq 1 ''1e0'' \<and> trim ''Bo'' \<noteq> [] \<and> example_isEmail ''bo@x.com'' \<and>
   put_users_id example_isEmail [\<lparr>user_id = 1, name = ''Ann'', email = ''ann@x.com''\<rparr>]
     \<lparr>params_id = ''1e0'', body_name = ''Bo'', body_email = ''bo@x.com''\<rparr> =
     (\<lparr>status = 400,
       json = Errors [\<lparr>err_location = ''params'', err_field = ''id'',
                       err_msg = ''ID should be an integer''\<rparr>]\<rparr>,
      [\<lparr>user_id = 1, name = ''Ann'', email = ''ann@x.com''\<rparr>])"
  by (simp add: handler_defs example_paths run_chains_put del: run_chains.simps)

theorem coerced_path_matches_witness:
  "loose_eq 1 '' 1'' \<and>
   get_users_id [\<lparr>user_id = 1, name = ''Ann'', email = ''ann@x.com''\<rparr>]
     \<lparr>params_id = '' 1'', body_name = ''Bo'', body_email = ''bo@x.com''\<rparr> =
     (\<lparr>status = 200, json = UserJson \<lparr>user_id = 1, name = ''Ann'', email = ''ann@x.com''\<rparr>\<rparr>,
      [\<lparr>user_id = 1, name = ''Ann'', email = ''ann@x.com''\<rparr>]) \<and>
   delete_users_id [\<lparr>user_id = 1, name = ''Ann'', email = ''ann@x.com''\<rparr>]
     \<lparr>params_id = '' 1'', body_name = ''Bo'', body_email = ''bo@x.com''\<rparr> =
     (\<lparr>status = 200, json = Message ''User is deleted''\<rparr>, []) \<and>
   status (fst (put_users_id example_isEmail
     [\<lparr>user_id = 1, name = ''Ann'', email = ''ann@x.com''\<rparr>]
     \<lparr>params_id = '' 1'', body_name = ''Bo'', body_email = ''bo@x.com''\<rparr>)) = 400"
proof -
  have l: "loose_eq 1 '' 1''"
    by (simp add: loose_eq_def ToNumber_blank_1)
  have v: "\<not> isInt '' 1'' \<and> trim ''Bo'' \<noteq> [] \<and> example_isEmail ''bo@x.com''"
    by (simp add: isInt_def is_digit_def trim_def is_white_space_def example_isEmail_def)
  show ?thesis
    using l v coerced_path_matches
      [of "\<lparr>user_id = 1, name = ''Ann'', email = ''ann@x.com''\<rparr>"
          "[\<lparr>user_id = 1, name = ''Ann'', email = ''ann@x.com''\<rparr>]"
          "\<lparr>params_id = '' 1'', body_name = ''Bo'', body_email = ''bo@x.com''\<rparr>"
          example_isEmail]
    by (simp add: handler_defs example_paths)
qed

subsection \<open>Errors leave the array as it was\<close>

text \<open>
  Claim C3. Whatever the route and the array, a call that is answered with status 400 or
  404 leaves the array as it was.
\<close>

theorem error_atomicity:
  assumes "status (fst (app isEmail users_list call)) = 400 \<or> status (fst (app isEmail users_list call)) = 404"
  shows "snd (app isEmail users_list call) = users_list"
proof (cases "fst call")
  case POST_users
  with assms show ?thesis using post_unchanged [of isEmail users_list "snd call"] by (auto simp: app_def)
next
  case GET_users_id
  then show ?thesis by (simp add: app_def get_unchanged)
next
  case PUT_users_id
  with assms show ?thesis using put_unchanged [of isEmail users_list "snd call"] by (auto simp: app_def)
next
  case DELETE_users_id
  with assms show ?thesis using delete_unchanged [of users_list "snd call"] by (auto simp: app_def)
qed

theorem error_atomicity_witness:
  "status (fst (app example_isEmail [\<lparr>user_id = 1, name = ''Ann'', email = ''ann@x.com''\<rparr>]
      (PUT_users_id, \<lparr>params_id = ''1'', body_name = ''  '', body_email = ''bo@x.com''\<rparr>))) = 400 \<and>
   snd (app example_isEmail [\<lparr>user_id = 1, name = ''Ann'', email = ''ann@x.com''\<rparr>]
      (PUT_users_id, \<lparr>params_id = ''1'', body_name = ''  '', body_email = ''bo@x.com''\<rparr>)) = [\<lparr>user_id = 1, name = ''Ann'', email = ''ann@x.com''\<rparr>] \<and>
   status (fst (app example_isEmail [\<lparr>user_id = 1, name = ''Ann'', email = ''ann@x.com''\<rparr>]
      (DELETE_users_id, \<lparr>params_id = ''2'', body_name = [], body_email = []\<rparr>))) = 404 \<and>
   snd (app example_isEmail [\<lparr>user_id = 1, name = ''Ann'', email = ''ann@x.com''\<rparr>]
      (DELETE_users_id, \<lparr>params_id = ''2'', body_name = [], body_email = []\<rparr>)) = [\<lparr>user_id = 1, name = ''Ann'', email = ''ann@x.com''\<rparr>]"
  using error_atomicity [of example_isEmail "[\<lparr>user_id = 1, name = ''Ann'', email = ''ann@x.com''\<rparr>]"
      "(PUT_users_id, \<lparr>params_id = ''1'', body_name = ''  '', body_email = ''bo@x.com''\<rparr>)"]
    error_atomicity [of example_isEmail "[\<lparr>user_id = 1, name = ''Ann'', email = ''ann@x.com''\<rparr>]"
      "(DELETE_users_id, \<lparr>params_id = ''2'', body_name = [], body_email = []\<rparr>)"]
  by (simp add: handler_defs example_paths)

end
